theory Spec2Isabelle
  imports Complex_Main
begin

unbundle bit_operations_syntax

section \<open>Python values shared by both programs\<close>

text \<open>
  Exceptions are values. Only the class matters to the properties below; the message is
  kept because \<^verbatim>\<open>update_frame_data\<close> prints it.
\<close>

datatype exn_class =
  AttributeError | IndexError | KeyError | ValueError | FileNotFoundError | ReadError
  | URLError | OtherError

datatype py_exn = PyExn exn_class string

fun str_exn :: "py_exn \<Rightarrow> string" where
  "str_exn (PyExn c m) = m"

text \<open>\<^verbatim>\<open>xs[i]\<close> on a Python list: a negative index counts from the end, an index
  outside \<open>-len .. len-1\<close> raises IndexError.\<close>

definition py_getitem :: "'a list \<Rightarrow> int \<Rightarrow> py_exn + 'a" where
  "py_getitem xs i =
     (if 0 \<le> i \<and> i < int (length xs) then Inr (xs ! nat i)
      else if - int (length xs) \<le> i \<and> i < 0 then Inr (xs ! nat (int (length xs) + i))
      else Inl (PyExn IndexError ''list index out of range''))"

text \<open>\<^verbatim>\<open>str.lower\<close>, \<^verbatim>\<open>str.startswith\<close>, \<^verbatim>\<open>str.endswith\<close> and
  \<^verbatim>\<open>sep.join\<close> on ASCII strings.\<close>

definition lower_char :: "char \<Rightarrow> char" where
  "lower_char c =
     (case map_of (zip ''ABCDEFGHIJKLMNOPQRSTUVWXYZ'' ''abcdefghijklmnopqrstuvwxyz'') c of
        None \<Rightarrow> c
      | Some l \<Rightarrow> l)"

definition lower :: "string \<Rightarrow> string" where
  "lower s = map lower_char s"

definition startswith :: "string \<Rightarrow> string \<Rightarrow> bool" where
  "startswith s p = (take (length p) s = p)"

definition endswith :: "string \<Rightarrow> string \<Rightarrow> bool" where
  "endswith s p = (length p \<le> length s \<and> drop (length s - length p) s = p)"

fun join :: "string \<Rightarrow> string list \<Rightarrow> string" where
  "join sep [] = []"
| "join sep [x] = x"
| "join sep (x # y # ys) = x @ sep @ join sep (y # ys)"

text \<open>\<^verbatim>\<open>os.path.join(a, b)\<close> (POSIX) for a second component that is not absolute.\<close>

definition path_join :: "string \<Rightarrow> string \<Rightarrow> string" where
  "path_join a b = (if a = [] then b else if last a = CHR ''/'' then a @ b else a @ ''/'' @ b)"

section \<open>download\_binary.py\<close>

subsection \<open>The model table and the usage message\<close>

definition physicell_version :: string where "physicell_version = ''1.14.2''"
definition repo_physicell :: string where "repo_physicell = ''MathCancer/PhysiCell''"
definition physiboss_version :: string where "physiboss_version = ''v2.2.3''"
definition repo_physiboss :: string where "repo_physiboss = ''sysbio-curie/PhysiBoSS''"

definition physiboss_base :: string where
  "physiboss_base =
     ''https://github.com/'' @ repo_physiboss @ ''/releases/download/'' @ physiboss_version @ ''/''"

definition physicell_base :: string where
  "physicell_base =
     ''https://github.com/'' @ repo_physicell @ ''/releases/download/'' @ physicell_version @ ''/''"

text \<open>The dict \<^verbatim>\<open>list_models\<close>, in insertion order (the order \<^verbatim>\<open>keys()\<close> lists).\<close>

definition list_models :: "(string \<times> string) list" where
  "list_models =
     [(''physiboss-tutorial'', physiboss_base),
      (''physiboss-tutorial-invasion'', physiboss_base),
      (''physiboss-cell-lines'', physiboss_base),
      (''template_BM'', physiboss_base),
      (''template'', physicell_base),
      (''rules'', physicell_base),
      (''physimess'', physicell_base),
      (''interaction'', physicell_base)]"

definition model_names :: "string list" where
  "model_names = map fst list_models"

definition print_usage :: "string list" where
  "print_usage =
     [''Usage : python download_binary.py <model>'',
      '''',
      ''Models available : '' @ join '', '' model_names]"

subsection \<open>The world the script runs in\<close>

text \<open>
  A tar member is a regular file with a name, a mode and its bytes. A file on disk holds
  either an archive (what \<^verbatim>\<open>tarfile.open\<close> can read) or other bytes. The file system
  is the script's directory, keyed by the file name in it: the script changes into that
  directory before it opens the archive, so \<^verbatim>\<open>my_file\<close> and \<^verbatim>\<open>mb_file\<close> name the
  same file.
\<close>

record member =
  m_name :: string
  m_mode :: nat
  m_data :: string

datatype content = Blob string | Tar "member list"

record disk_file =
  st_mode :: nat
  data :: content

type_synonym fs = "string \<rightharpoonup> disk_file"

text \<open>What \<^verbatim>\<open>urllib.request.urlretrieve\<close> did: it stored the response, or it raised,
  possibly after it had written a part of the file.\<close>

datatype fetch_result = Fetched content | FetchFailed py_exn "content option"

text \<open>
  Both library calls are given by the environment. \<open>tar_extract\<close> is what
  \<^verbatim>\<open>tar.extract\<close> does to the directory for the member it is handed: where the member
  lands (\<^verbatim>\<open>./project\<close> is the file \<^verbatim>\<open>project\<close>; a name with directories lands below
  them), which mode it gets and whether the extraction filter of the Python version
  refuses it are the library's business. It returns the exception, if any, and the
  directory as it left it.
\<close>

record env =
  argv :: "string list"
  platform_system :: string
  dir_name :: string
  urlretrieve :: "string \<Rightarrow> fetch_result"
  umask_mode :: nat
  tar_extract :: "member \<Rightarrow> fs \<Rightarrow> py_exn option \<times> fs"

datatype outcome = Completed | Exit nat | Uncaught py_exn

record world =
  files :: fs
  stdout :: "string list"
  fetched :: "string list"

definition S_IEXEC :: nat where "S_IEXEC = 64"

subsection \<open>Lines 34 to 48: the model argument\<close>

definition select_model :: "string list \<Rightarrow> string list \<times> string" where
  "select_model av =
     (if length av < 2 then (print_usage, ''template_BM'')
      else ([''model =  '' @ av ! 1], av ! 1))"

definition rejected_model :: "string \<Rightarrow> bool" where
  "rejected_model m = (m \<in> set [''-h'', ''--help''] \<or> m \<notin> set model_names)"

subsection \<open>Lines 52 to 64: the archive name for the platform\<close>

definition unsupported_message :: string where
  "unsupported_message =
     ''Your operating system seems to be unsupported. Please create an new issue at https://github.com/PhysiBoSS/PhysiBoSS/issues/ ''"

definition platform_file :: "string \<Rightarrow> string \<Rightarrow> string option" where
  "platform_file os_type m =
     (if lower os_type = ''darwin'' then Some (m @ ''-macos.tar.gz'')
      else if startswith (lower os_type) ''win'' \<or> startswith (lower os_type) ''msys_nt''
              \<or> startswith (lower os_type) ''mingw64_nt'' then Some (m @ ''-win.tar.gz'')
      else if startswith (lower os_type) ''linux'' then Some (m @ ''-linux.tar.gz'')
      else None)"

subsection \<open>Lines 88 to 126: fetch, extract, remove the archive\<close>

text \<open>\<^verbatim>\<open>urlretrieve(url, my_file, download_cb)\<close> opens the target for writing (an
  existing file keeps its mode) and stores what it received; the exception, if any, is not
  caught by the script. The progress lines of \<^verbatim>\<open>download_cb\<close> go to stderr, which is
  not tracked.\<close>

definition write_file :: "nat \<Rightarrow> string \<Rightarrow> content \<Rightarrow> fs \<Rightarrow> fs" where
  "write_file um n c fs =
     (case fs n of
        None \<Rightarrow> fs(n \<mapsto> \<lparr>st_mode = um, data = c\<rparr>)
      | Some f \<Rightarrow> fs(n \<mapsto> f\<lparr>data := c\<rparr>))"

definition do_urlretrieve :: "nat \<Rightarrow> string \<Rightarrow> fetch_result \<Rightarrow> fs \<Rightarrow> py_exn option \<times> fs" where
  "do_urlretrieve um mb_file r fs =
     (case r of
        Fetched c \<Rightarrow> (None, write_file um mb_file c fs)
      | FetchFailed ex None \<Rightarrow> (Some ex, fs)
      | FetchFailed ex (Some c) \<Rightarrow> (Some ex, write_file um mb_file c fs))"

text \<open>\<^verbatim>\<open>TarFile.getmember\<close>: the last member of that name.\<close>

definition getmember :: "member list \<Rightarrow> string \<Rightarrow> member option" where
  "getmember ms n = find (\<lambda>m. m_name m = n) (rev ms)"

text \<open>\<^verbatim>\<open>tarfile.open(mb_file)\<close> followed by \<^verbatim>\<open>tar.getnames()\<close>: the members of the
  archive, or the exception for a file that is missing or is no archive.\<close>

definition tar_open :: "string \<Rightarrow> fs \<Rightarrow> py_exn + member list" where
  "tar_open mb_file fs =
     (case fs mb_file of
        None \<Rightarrow> Inl (PyExn FileNotFoundError mb_file)
      | Some f \<Rightarrow>
          (case data f of
             Blob b \<Rightarrow> Inl (PyExn ReadError ''file could not be opened successfully'')
           | Tar ms \<Rightarrow> Inr ms))"

definition os_remove :: "string \<Rightarrow> fs \<Rightarrow> py_exn + fs" where
  "os_remove n fs =
     (case fs n of
        None \<Rightarrow> Inl (PyExn FileNotFoundError n)
      | Some f \<Rightarrow> Inr (fs(n := None)))"

subsection \<open>Lines 128 to 131: the executable bit\<close>

definition new_name :: "string \<Rightarrow> string" where
  "new_name mb_file = (if \<not> endswith mb_file ''win.tar.gz'' then ''project'' else ''project.exe'')"

definition stat_chmod :: "string \<Rightarrow> fs \<Rightarrow> py_exn + fs" where
  "stat_chmod n fs =
     (case fs n of
        None \<Rightarrow> Inl (PyExn FileNotFoundError n)
      | Some f \<Rightarrow> Inr (fs(n \<mapsto> f\<lparr>st_mode := st_mode f OR S_IEXEC\<rparr>)))"

subsection \<open>The script, top to bottom\<close>

text \<open>The handler of the bare \<^verbatim>\<open>except\<close>.\<close>

definition untar_failed :: "world \<Rightarrow> outcome \<times> world" where
  "untar_failed w = (Exit 1, w\<lparr>stdout := stdout w @ [''! Error untarring the file'']\<rparr>)"

text \<open>Lines 128 to 131, on the directory the \<^verbatim>\<open>try\<close> left.\<close>

definition make_executable :: "string \<Rightarrow> world \<Rightarrow> outcome \<times> world" where
  "make_executable mb_file w =
     (case stat_chmod (new_name mb_file) (files w) of
        Inl ex \<Rightarrow> (Uncaught ex, w)
      | Inr fs2 \<Rightarrow> (Completed, w\<lparr>files := fs2\<rparr>))"

text \<open>Lines 119 to 122 for the member \<open>x\<close> that \<^verbatim>\<open>tar.extract(binary_name)\<close> looks
  up: extract it, remove the archive.\<close>

definition extract_and_remove :: "env \<Rightarrow> string \<Rightarrow> member \<Rightarrow> world \<Rightarrow> outcome \<times> world" where
  "extract_and_remove e mb_file x w =
     (case tar_extract e x (files w) of
        (Some ex, fsB) \<Rightarrow> untar_failed (w\<lparr>files := fsB\<rparr>)
      | (None, fsB) \<Rightarrow>
          (case os_remove mb_file fsB of
             Inl ex \<Rightarrow> untar_failed (w\<lparr>files := fsB\<rparr>)
           | Inr fs1 \<Rightarrow> make_executable mb_file (w\<lparr>files := fs1\<rparr>)))"

definition after_fetch :: "env \<Rightarrow> string \<Rightarrow> world \<Rightarrow> outcome \<times> world" where
  "after_fetch e mb_file w =
     (let w1 = w\<lparr>stdout := stdout w @ [''> Uncompressing the model'']\<rparr> in
      case tar_open mb_file (files w1) of
        Inl ex \<Rightarrow> untar_failed w1
      | Inr ms \<Rightarrow>
          (case py_getitem (map m_name ms) 0 of
             Inl ex \<Rightarrow> untar_failed w1
           | Inr binary_name \<Rightarrow>
               (let w2 = w1\<lparr>stdout := stdout w1 @ [''binary_name = '' @ binary_name, '''']\<rparr> in
                case getmember ms binary_name of
                  None \<Rightarrow> untar_failed w2
                | Some x \<Rightarrow> extract_and_remove e mb_file x w2)))"

definition download :: "env \<Rightarrow> string \<Rightarrow> string \<Rightarrow> world \<Rightarrow> outcome \<times> world" where
  "download e m mb_file w =
     (case map_of list_models m of
        None \<Rightarrow> (Uncaught (PyExn KeyError m), w)
      | Some base \<Rightarrow>
          (let url = base @ mb_file;
               my_file = path_join (dir_name e) mb_file;
               w1 = w\<lparr>stdout := stdout w @
                       [''> Downloading from:  '' @ url,
                        ''> Loading into directory:  '' @ dir_name e,
                        ''> File:  '' @ my_file],
                      fetched := fetched w @ [url]\<rparr> in
           case do_urlretrieve (umask_mode e) mb_file (urlretrieve e url) (files w1) of
             (Some ex, fs1) \<Rightarrow> (Uncaught ex, w1\<lparr>files := fs1\<rparr>)
           | (None, fs1) \<Rightarrow> after_fetch e mb_file (w1\<lparr>files := fs1\<rparr>)))"

text \<open>Line 50 to the end, for the model \<open>m\<close> that passed the check of line 46.\<close>

definition run_model :: "env \<Rightarrow> string \<Rightarrow> world \<Rightarrow> outcome \<times> world" where
  "run_model e m w =
     (let w1 = w\<lparr>stdout := stdout w @
                   [''> Chosen model:  '' @ m,
                    ''> Operating system:  '' @ platform_system e]\<rparr> in
      case platform_file (platform_system e) m of
        None \<Rightarrow> (Exit 1, w1\<lparr>stdout := stdout w1 @ [unsupported_message]\<rparr>)
      | Some mb_file \<Rightarrow> download e m mb_file w1)"

definition main :: "env \<Rightarrow> fs \<Rightarrow> outcome \<times> world" where
  "main e fs0 =
     (let (out0, m) = select_model (argv e);
          w0 = \<lparr>files = fs0, stdout = out0, fetched = []\<rparr> in
      if rejected_model m then (Exit 1, w0\<lparr>stdout := stdout w0 @ print_usage\<rparr>)
      else run_model e m w0)"

section \<open>studio/bin/vtk\_view.py\<close>

subsection \<open>Formatting integers\<close>

text \<open>\<^verbatim>\<open>str(n)\<close> and the format \<^verbatim>\<open>{n:08d}\<close> of an \<^verbatim>\<open>int\<close>: the sign counts towards
  the width of eight.\<close>

fun digits :: "nat \<Rightarrow> string" where
  "digits n = (if n < 10 then [''0123456789'' ! n] else digits (n div 10) @ [''0123456789'' ! (n mod 10)])"

definition str_int :: "int \<Rightarrow> string" where
  "str_int n = (if n < 0 then ''-'' @ digits (nat (- n)) else digits (nat n))"

definition zfill :: "nat \<Rightarrow> string \<Rightarrow> string" where
  "zfill w s = replicate (w - length s) (CHR ''0'') @ s"

definition fmt_08d :: "int \<Rightarrow> string" where
  "fmt_08d n = (if n < 0 then ''-'' @ zfill 7 (digits (nat (- n))) else zfill 8 (digits (nat n)))"

subsection \<open>What the viewer holds and what it draws\<close>

text \<open>
  The type \<open>'f\<close> stands for the 64-bit floats of the data file. The operations on them that
  the module uses are parameters: \<^verbatim>\<open>np.divide\<close>, \<^verbatim>\<open>np.power\<close>, the two literals of
  lines 154 and 156, the zero of \<^verbatim>\<open>np.zeros_like\<close>, the rounding to single precision
  that \<^verbatim>\<open>vtkPoints\<close> and \<^verbatim>\<open>vtkFloatArray\<close> apply to what they store,
  \<^verbatim>\<open>int(x * 255)\<close> (which raises on a NaN or an infinity) and the time label of lines
  224 to 227.
\<close>

record 'f float_ops =
  np_divide :: "'f \<Rightarrow> 'f \<Rightarrow> 'f"
  np_power :: "'f \<Rightarrow> 'f \<Rightarrow> 'f"
  four_thirds_pi :: 'f
  one_third :: 'f
  fzero :: 'f
  float32 :: "'f \<Rightarrow> 'f"
  int_times_255 :: "'f \<Rightarrow> py_exn + int"
  time_str :: "'f \<Rightarrow> py_exn + string"

text \<open>One row of \<^verbatim>\<open>mcds.get_cell_df()\<close>, the cell type already cast by
  \<^verbatim>\<open>astype(int)\<close>; the column \<^verbatim>\<open>position_z\<close> may be missing from the whole frame.\<close>

record 'f cell =
  position_x :: 'f
  position_y :: 'f
  position_z :: 'f
  total_volume :: 'f
  cell_type :: int

record 'f mcds =
  cell_df :: "'f cell list"
  has_position_z :: bool
  get_time :: 'f

type_synonym colour = "rat \<times> rat \<times> rat"

datatype 'f view_prop =
    TextActor string nat colour "int \<times> int"
  | SphereActor "int \<times> int \<times> int" int nat nat colour
  | GlyphActor "('f \<times> 'f \<times> 'f) list" "(int \<times> int \<times> int) list" "'f list"

record vtk_window =
  window_name :: string
  renders :: nat

record qt_main_window =
  title :: string
  shown :: bool

text \<open>The attributes of a \<^verbatim>\<open>PhysiCellVTKView\<close>. \<open>None\<close> in \<open>qt_window\<close> and
  \<open>vtk_widget\<close> says that the attribute does not exist yet (\<^verbatim>\<open>hasattr\<close> is false);
  elsewhere it is Python's \<^verbatim>\<open>None\<close>. \<open>console\<close> collects what the methods print.\<close>

record 'f viewer =
  output_dir :: string
  current_frame :: int
  cell_colors :: "'f list list"
  vtk_win :: "vtk_window option"
  renderer :: "'f view_prop list option"
  background :: colour
  interactor :: bool
  update_timer :: "bool option"
  qt_window :: "qt_main_window option"
  vtk_widget :: "bool option"
  console :: "string list"

record 'f vtk_env =
  path_exists :: "string \<Rightarrow> bool"
  pyMCDS_cells :: "string \<Rightarrow> string \<Rightarrow> py_exn + 'f mcds"
  ops :: "'f float_ops"

text \<open>A method leaves the viewer as it is when it raises, with what it had changed so
  far: the result is the exception, if any, and the viewer.\<close>

type_synonym 'f action = "'f viewer \<Rightarrow> py_exn option \<times> 'f viewer"

definition then_do :: "'f action \<Rightarrow> 'f action \<Rightarrow> 'f action" where
  "then_do f g v = (case f v of (None, v1) \<Rightarrow> g v1 | (Some ex, v1) \<Rightarrow> (Some ex, v1))"

definition bind_exn :: "py_exn + 'a \<Rightarrow> ('a \<Rightarrow> py_exn + 'b) \<Rightarrow> py_exn + 'b" where
  "bind_exn r f = (case r of Inl ex \<Rightarrow> Inl ex | Inr a \<Rightarrow> f a)"

definition none_has_no :: "string \<Rightarrow> py_exn" where
  "none_has_no attr =
     PyExn AttributeError
       ([CHR 0x27] @ ''NoneType'' @ [CHR 0x27] @ '' object has no attribute '' @ [CHR 0x27] @ attr @ [CHR 0x27])"

definition print_line :: "string \<Rightarrow> 'f action" where
  "print_line s v = (None, v\<lparr>console := console v @ [s]\<rparr>)"

text \<open>\<^verbatim>\<open>self.renderer.AddActor(a)\<close> and \<^verbatim>\<open>self.renderer.AddActor2D(a)\<close>.\<close>

definition add_actor :: "string \<Rightarrow> 'f view_prop \<Rightarrow> 'f action" where
  "add_actor attr a v =
     (case renderer v of
        None \<Rightarrow> (Some (none_has_no attr), v)
      | Some props \<Rightarrow> (None, v\<lparr>renderer := Some (props @ [a])\<rparr>))"

definition white :: colour where "white = (1, 1, 1)"
definition yellow :: colour where "yellow = (1, 1, 0)"
definition light_red :: colour where "light_red = (1, 1 / 2, 1 / 2)"
definition red :: colour where "red = (1, 0, 0)"

definition init_viewer :: "string \<Rightarrow> int \<Rightarrow> 'f list list option \<Rightarrow> 'f viewer" where
  "init_viewer dir frame colors =
     \<lparr>output_dir = dir, current_frame = frame,
      cell_colors = (case colors of None \<Rightarrow> [] | Some cs \<Rightarrow> cs),
      vtk_win = None, renderer = None, background = (0, 0, 0), interactor = False,
      update_timer = None, qt_window = None, vtk_widget = None, console = []\<rparr>"

subsection \<open>The small drawing methods\<close>

abbreviation demo_sphere :: "'f view_prop" where
  "demo_sphere \<equiv> SphereActor (0, 0, 0) 50 30 30 red"

definition create_demo_sphere :: "'f action" where
  "create_demo_sphere v = add_actor ''AddActor'' demo_sphere v"

text \<open>The axes go to a marker widget on the interactor, not to the renderer, and the
  widget is local to the method: nothing the viewer holds changes.\<close>

definition add_orientation_axes :: "'f action" where
  "add_orientation_axes v = (None, v)"

definition add_frame_info_text :: "'f action" where
  "add_frame_info_text v =
     add_actor ''AddActor2D''
       (TextActor (''CURRENT FRAME: '' @ str_int (current_frame v)) 24 yellow (100, 30)) v"

definition add_error_text :: "string \<Rightarrow> 'f action" where
  "add_error_text error_msg =
     add_actor ''AddActor2D'' (TextActor (''Error loading data: '' @ error_msg) 16 light_red (20, 100))"

subsection \<open>load\_and\_display\_cells\<close>

definition default_gray :: "int \<times> int \<times> int" where
  "default_gray = (180, 180, 180)"

text \<open>Lines 181 to 184: the three components of a table entry, each through
  \<^verbatim>\<open>int(c * 255)\<close>.\<close>

definition rgb_of :: "('f \<Rightarrow> py_exn + int) \<Rightarrow> 'f list \<Rightarrow> py_exn + (int \<times> int \<times> int)" where
  "rgb_of to255 color =
     bind_exn (py_getitem color 0) (\<lambda>c0. bind_exn (to255 c0) (\<lambda>r.
     bind_exn (py_getitem color 1) (\<lambda>c1. bind_exn (to255 c1) (\<lambda>g.
     bind_exn (py_getitem color 2) (\<lambda>c2. bind_exn (to255 c2) (\<lambda>b.
     Inr (r, g, b)))))))"

text \<open>Lines 179 to 186.\<close>

definition cell_rgb :: "('f \<Rightarrow> py_exn + int) \<Rightarrow> 'f list list \<Rightarrow> int \<Rightarrow> py_exn + (int \<times> int \<times> int)" where
  "cell_rgb to255 table ct =
     (if ct < int (length table) then bind_exn (py_getitem table ct) (rgb_of to255)
      else Inr default_gray)"

text \<open>Lines 153 to 156, on the whole column.\<close>

definition cell_radii :: "'f float_ops \<Rightarrow> 'f list \<Rightarrow> 'f list" where
  "cell_radii fo cell_vols =
     map (\<lambda>x. np_power fo x (one_third fo)) (map (\<lambda>v. np_divide fo v (four_thirds_pi fo)) cell_vols)"

type_synonym 'f arrays = "('f \<times> 'f \<times> 'f) list \<times> (int \<times> int \<times> int) list \<times> 'f list"

text \<open>\<^verbatim>\<open>colors.InsertNextTuple3(r, g, b)\<close> on the \<^verbatim>\<open>vtkUnsignedCharArray\<close>: each value
  is cast to an unsigned char, which keeps it modulo 256.\<close>

definition insert_tuple3 :: "int \<times> int \<times> int \<Rightarrow> int \<times> int \<times> int" where
  "insert_tuple3 rgb = (case rgb of (r, g, b) \<Rightarrow> (r mod 256, g mod 256, b mod 256))"

text \<open>The loop of lines 175 to 189 over the rows, each with its \<open>z\<close> and its radius; the
  three VTK arrays grow at the end, the points and the sizes in single precision.\<close>

fun fill_arrays ::
  "'f float_ops \<Rightarrow> 'f list list \<Rightarrow> ('f cell \<times> 'f \<times> 'f) list \<Rightarrow> 'f arrays \<Rightarrow> py_exn + 'f arrays" where
  "fill_arrays fo table [] acc = Inr acc"
| "fill_arrays fo table ((c, z, radius) # rest) (points, colors, sizes) =
     (case cell_rgb (int_times_255 fo) table (cell_type c) of
        Inl ex \<Rightarrow> Inl ex
      | Inr rgb \<Rightarrow>
          fill_arrays fo table rest
            (points @ [(float32 fo (position_x c), float32 fo (position_y c), float32 fo z)],
             colors @ [insert_tuple3 rgb],
             sizes @ [float32 fo radius]))"

definition positions_z :: "'f float_ops \<Rightarrow> 'f mcds \<Rightarrow> 'f list" where
  "positions_z fo m =
     (if has_position_z m then map position_z (cell_df m) else map (\<lambda>c. fzero fo) (cell_df m))"

definition glyph_arrays :: "'f float_ops \<Rightarrow> 'f list list \<Rightarrow> 'f mcds \<Rightarrow> py_exn + 'f arrays" where
  "glyph_arrays fo table m =
     fill_arrays fo table
       (zip (cell_df m) (zip (positions_z fo m) (cell_radii fo (map total_volume (cell_df m)))))
       ([], [], [])"

definition show_time :: "'f vtk_env \<Rightarrow> 'f mcds \<Rightarrow> string \<Rightarrow> 'f action" where
  "show_time e m xml_file_root v =
     (case time_str (ops e) (get_time m) of
        Inl ex \<Rightarrow> (Some ex, v)
      | Inr ts \<Rightarrow>
          then_do (add_actor ''AddActor2D'' (TextActor (''FILE: '' @ xml_file_root) 16 white (20, 60)))
         (then_do (add_actor ''AddActor2D''
                     (TextActor (''PhysiCell Frame '' @ str_int (current_frame v) @ '' - ''
                                 @ str_int (int (length (cell_df m))) @ '' cells - '' @ ts)
                        16 white (20, 30)))
                  (print_line (''Loaded '' @ str_int (int (length (cell_df m))) @ '' cells from frame ''
                               @ str_int (current_frame v)))) v)"

definition load_and_display_cells :: "'f vtk_env \<Rightarrow> string \<Rightarrow> 'f action" where
  "load_and_display_cells e xml_file_root v =
     (case pyMCDS_cells e xml_file_root (output_dir v) of
        Inl ex \<Rightarrow> (Some ex, v)
      | Inr m \<Rightarrow>
          (case glyph_arrays (ops e) (cell_colors v) m of
             Inl ex \<Rightarrow> (Some ex, v)
           | Inr (points, colors, sizes) \<Rightarrow>
               then_do (add_actor ''AddActor'' (GlyphActor points colors sizes))
                       (show_time e m xml_file_root) v))"

subsection \<open>The fallback and update\_frame\_data\<close>

definition try_svg_fallback :: "'f vtk_env \<Rightarrow> 'f action" where
  "try_svg_fallback e v =
     (let svg_file = ''snapshot'' @ fmt_08d (current_frame v) @ ''.svg'';
          svg_path = path_join (output_dir v) svg_file in
      if path_exists e svg_path then
        then_do (print_line (''Found SVG file: '' @ svg_path))
       (then_do (add_actor ''AddActor2D'' (TextActor (''FILE: '' @ svg_path) 24 yellow (100, 100)))
       (then_do (add_actor ''AddActor2D''
                   (TextActor ''SVG files contain limited position data. Full 3D visualization requires XML output.''
                      16 light_red (20, 140)))
                create_demo_sphere)) v
      else
        then_do (add_actor ''AddActor2D''
                   (TextActor (''No cell data found for frame '' @ str_int (current_frame v)) 24 yellow (100, 100)))
                create_demo_sphere v)"

text \<open>Lines 116 to 129: the \<^verbatim>\<open>try\<close> and its handler.\<close>

definition load_frame :: "'f vtk_env \<Rightarrow> 'f action" where
  "load_frame e v =
     (let xml_file_root = ''output'' @ fmt_08d (current_frame v) @ ''.xml'';
          xml_file = path_join (output_dir v) xml_file_root in
      if path_exists e xml_file then load_and_display_cells e xml_file_root v
      else try_svg_fallback e v)"

definition handle_load_error :: "py_exn \<Rightarrow> 'f action" where
  "handle_load_error ex =
     then_do (print_line (''Error loading cell data: '' @ str_exn ex))
    (then_do create_demo_sphere (add_error_text (str_exn ex)))"

definition render_window :: "'f action" where
  "render_window v =
     (case vtk_win v of
        None \<Rightarrow> (None, v)
      | Some win \<Rightarrow> (None, v\<lparr>vtk_win := Some (win\<lparr>renders := renders win + 1\<rparr>)\<rparr>))"

definition remove_all_view_props :: "'f action" where
  "remove_all_view_props v =
     (case renderer v of
        None \<Rightarrow> (Some (none_has_no ''RemoveAllViewProps''), v)
      | Some props \<Rightarrow> (None, v\<lparr>renderer := Some []\<rparr>))"

definition update_frame_data :: "'f vtk_env \<Rightarrow> 'f action" where
  "update_frame_data e =
     then_do remove_all_view_props
    (then_do add_frame_info_text
    (then_do (\<lambda>v. case load_frame e v of
                     (None, v1) \<Rightarrow> (None, v1)
                   | (Some ex, v1) \<Rightarrow> handle_load_error ex v1)
    (then_do add_orientation_axes render_window)))"

subsection \<open>The frame switch, the timer, opening and closing\<close>

definition frame_title :: "int \<Rightarrow> string" where
  "frame_title n = ''PhysiCell VTK Viewer - Frame '' @ str_int n"

definition set_window_title :: "'f action" where
  "set_window_title v =
     (case qt_window v of
        Some w \<Rightarrow> (None, v\<lparr>qt_window := Some (w\<lparr>title := frame_title (current_frame v)\<rparr>)\<rparr>)
      | None \<Rightarrow>
          (case vtk_win v of
             Some win \<Rightarrow> (None, v\<lparr>vtk_win := Some (win\<lparr>window_name := frame_title (current_frame v)\<rparr>)\<rparr>)
           | None \<Rightarrow> (None, v)))"

definition set_current_frame :: "'f vtk_env \<Rightarrow> int \<Rightarrow> 'f action" where
  "set_current_frame e frame_num v =
     (if current_frame v = frame_num then (None, v)
      else
        then_do (\<lambda>v0. print_line (''VTK viewer updating to frame '' @ str_int (current_frame v0)) v0)
       (then_do set_window_title (update_frame_data e))
         (v\<lparr>current_frame := frame_num\<rparr>))"

definition check_for_frame_update :: "'f action" where
  "check_for_frame_update v = (None, v)"

text \<open>The timer of lines 88 to 91 is connected to \<^verbatim>\<open>check_for_frame_update\<close>; a timeout
  of a running timer calls it.\<close>

definition timer_timeout :: "'f action" where
  "timer_timeout v =
     (case update_timer v of
        Some True \<Rightarrow> check_for_frame_update v
      | Some False \<Rightarrow> (None, v)
      | None \<Rightarrow> (None, v))"

definition open_window :: "'f vtk_env \<Rightarrow> 'f action" where
  "open_window e v =
     then_do (update_frame_data e)
    (then_do (add_actor ''AddActor2D''
                (TextActor ''Left mouse: Rotate | Right mouse: Zoom | Middle mouse: Pan'' 12 white (20, 560)))
    (then_do (\<lambda>v1. (None, v1\<lparr>background := (1 / 10, 2 / 10, 3 / 10)\<rparr>))
    (then_do add_orientation_axes
             (\<lambda>v1. (None, v1\<lparr>update_timer := Some True,
                              qt_window := map_option (\<lambda>w. w\<lparr>shown := True\<rparr>) (qt_window v1)\<rparr>)))))
       (v\<lparr>qt_window := Some \<lparr>title = frame_title (current_frame v), shown = False\<rparr>,
          vtk_widget := Some True,
          vtk_win := Some \<lparr>window_name = [], renders = 0\<rparr>,
          interactor := True,
          renderer := Some []\<rparr>)"

definition close :: "'f action" where
  "close v =
     (None, v\<lparr>update_timer := map_option (\<lambda>t. False) (update_timer v),
              vtk_widget := map_option (\<lambda>w. False) (vtk_widget v),
              qt_window := map_option (\<lambda>w. w\<lparr>shown := False\<rparr>) (qt_window v),
              vtk_win := None, renderer := None, interactor := False\<rparr>)"

text \<open>The calls the application and the event loop make on a viewer.\<close>

datatype call = OpenWindow | UpdateFrameData | SetCurrentFrame int | CheckForFrameUpdate | TimerTimeout | Close

fun invoke :: "'f vtk_env \<Rightarrow> call \<Rightarrow> 'f action" where
  "invoke e OpenWindow = open_window e"
| "invoke e UpdateFrameData = update_frame_data e"
| "invoke e (SetCurrentFrame n) = set_current_frame e n"
| "invoke e CheckForFrameUpdate = check_for_frame_update"
| "invoke e TimerTimeout = timer_timeout"
| "invoke e Close = close"

section \<open>Concrete inputs\<close>

text \<open>A run on Linux with no argument: the release asset holds one member, \<^verbatim>\<open>project\<close>.\<close>

definition project_member :: member where
  "project_member = \<lparr>m_name = ''project'', m_mode = 420, m_data = ''ELF''\<rparr>"

definition linux_env :: env where
  "linux_env =
     \<lparr>argv = [''download_binary.py''], platform_system = ''Linux'', dir_name = ''/opt/studio'',
      urlretrieve = (\<lambda>u. Fetched (Tar [project_member])), umask_mode = 420,
      tar_extract = (\<lambda>x fs. (None, fs(''project'' \<mapsto> \<lparr>st_mode = 420, data = Blob ''ELF''\<rparr>)))\<rparr>"





text \<open>
  For concrete frames the float operations are read over the reals (division, power,
  truncation towards zero): an idealisation that agrees with the doubles on the values
  used below. The general statements hold for any operations.
\<close>

definition py_int :: "real \<Rightarrow> int" where
  "py_int x = (if x < 0 then - \<lfloor>- x\<rfloor> else \<lfloor>x\<rfloor>)"

definition ideal_time_str :: "real \<Rightarrow> string" where
  "ideal_time_str mins =
     (let hrs = py_int (mins / 60); days = py_int (real_of_int hrs / 24)
      in str_int days @ ''d, '' @ str_int (hrs - days * 24) @ ''h, ''
         @ str_int (py_int (mins - real_of_int hrs * 60)) @ ''m'')"

definition ideal_ops :: "real float_ops" where
  "ideal_ops =
     \<lparr>np_divide = (\<lambda>a b. a / b), np_power = (\<lambda>a b. a powr b),
      four_thirds_pi = 4.188790204786391,
      one_third = 0.333333333333333333333333333333333333333,
      fzero = 0,
      float32 = (\<lambda>x. x),
      int_times_255 = (\<lambda>x. Inr (py_int (x * 255))),
      time_str = (\<lambda>mins. Inr (ideal_time_str mins))\<rparr>"

definition orange_table :: "real list list" where
  "orange_table = [[1, 1 / 2, 0]]"

definition two_entry_table :: "real list list" where
  "two_entry_table = [[1, 1 / 2, 0], [2, - 1 / 2, 1 / 2]]"

definition cell_of_type :: "int \<Rightarrow> real cell" where
  "cell_of_type ct =
     \<lparr>position_x = 0, position_y = 0, position_z = 0, total_volume = 2494, cell_type = ct\<rparr>"

text \<open>A frame of four cells, of types 0, 1, 2 and -1, with the arrays the loop builds for
  it from the table of two entries, and a frame whose only cell has type -2.\<close>

definition four_cells :: "real mcds" where
  "four_cells =
     \<lparr>cell_df = [cell_of_type 0, cell_of_type 1, cell_of_type 2, cell_of_type (- 1)],
      has_position_z = False, get_time = 60\<rparr>"

definition cell_below_table :: "real mcds" where
  "cell_below_table = \<lparr>cell_df = [cell_of_type (- 2)], has_position_z = False, get_time = 60\<rparr>"

definition four_points :: "(real \<times> real \<times> real) list" where
  "four_points = [(0, 0, 0), (0, 0, 0), (0, 0, 0), (0, 0, 0)]"

definition four_sizes :: "real list" where
  "four_sizes = cell_radii ideal_ops [2494, 2494, 2494, 2494]"

text \<open>An output directory where frame 0 has its XML file, and one with no files; a
  viewer with the table of two entries before its window is opened, and the same viewer
  with an empty renderer.\<close>

definition xml_env :: "real vtk_env" where
  "xml_env =
     \<lparr>path_exists = (\<lambda>p. p = ''out/output00000000.xml''),
      pyMCDS_cells = (\<lambda>xml_file_root dir. Inr four_cells),
      ops = ideal_ops\<rparr>"

definition bare_env :: "real vtk_env" where
  "bare_env = xml_env\<lparr>path_exists := (\<lambda>p. False)\<rparr>"

definition new_viewer :: "real viewer" where
  "new_viewer = init_viewer ''out'' 0 (Some two_entry_table)"

definition ready_viewer :: "real viewer" where
  "ready_viewer = new_viewer\<lparr>renderer := Some [], vtk_win := Some \<lparr>window_name = [], renders = 0\<rparr>\<rparr>"

section \<open>Properties of download\_binary.py\<close>









lemma write_file_apply:
  "write_file um n c fs p =
     (if p = n then Some (case fs n of None \<Rightarrow> \<lparr>st_mode = um, data = c\<rparr> | Some f \<Rightarrow> f\<lparr>data := c\<rparr>)
      else fs p)"
  by (simp add: write_file_def split: option.splits)

lemma write_file_removed: "(write_file um n c fs)(n := None) = fs(n := None)"
  by (rule ext) (simp add: write_file_apply)





text \<open>What has been printed stays printed: every stage only appends.\<close>

lemma stdout_make_executable: "stdout (snd (make_executable mb w)) = stdout w"
  by (simp add: make_executable_def split: sum.splits)

lemma stdout_extract_and_remove:
  "\<exists>rest. stdout (snd (extract_and_remove e mb x w)) = stdout w @ rest"
  by (simp add: extract_and_remove_def untar_failed_def stdout_make_executable
           split: prod.splits option.splits sum.splits)

lemma stdout_after_fetch: "\<exists>rest. stdout (snd (after_fetch e mb w)) = stdout w @ rest"
proof -
  have "\<exists>rest. stdout (snd (extract_and_remove e mb x (w\<lparr>stdout := stdout w @ pre\<rparr>)))
                = stdout w @ rest" for x pre
    using stdout_extract_and_remove[of e mb x "w\<lparr>stdout := stdout w @ pre\<rparr>"] by auto
  then show ?thesis
    by (auto simp: after_fetch_def Let_def untar_failed_def split: sum.splits option.splits)
qed

lemma stdout_download: "\<exists>rest. stdout (snd (download e m mb w)) = stdout w @ rest"
proof (cases "map_of list_models m")
  case None
  then show ?thesis by (simp add: download_def)
next
  case (Some base)
  have "\<exists>rest. stdout (snd (after_fetch e mb (w\<lparr>stdout := stdout w @ pre, fetched := fe, files := fl\<rparr>)))
                = stdout w @ rest" for pre fe fl
    using stdout_after_fetch[of e mb "w\<lparr>stdout := stdout w @ pre, fetched := fe, files := fl\<rparr>"]
    by auto
  with Some show ?thesis
    by (auto simp: download_def Let_def split: prod.splits option.splits)
qed

lemma stdout_run_model:
  "\<exists>rest. stdout (snd (run_model e m w))
            = stdout w @ [''> Chosen model:  '' @ m, ''> Operating system:  '' @ platform_system e] @ rest"
proof (cases "platform_file (platform_system e) m")
  case None
  then show ?thesis by (simp add: run_model_def Let_def)
next
  case (Some mb)
  let ?w1 = "w\<lparr>stdout := stdout w @
                [''> Chosen model:  '' @ m, ''> Operating system:  '' @ platform_system e]\<rparr>"
  from stdout_download[of e m mb ?w1] Some show ?thesis
    by (auto simp: run_model_def Let_def)
qed



subsection \<open>After the fetch\<close>
















text \<open>
  C10. With no argument the script prints the three lines of the usage message and goes
  on with the model \<^verbatim>\<open>template_BM\<close>: the run is the rest of the script for that model,
  and its next two lines of output name the chosen model \<^verbatim>\<open>template_BM\<close> and the
  operating system. With \<^verbatim>\<open>-h\<close>, \<^verbatim>\<open>--help\<close> or a name that is not one of the eight
  models as its argument, it prints the usage message and exits with status 1, with the
  disk untouched and nothing fetched.
\<close>

theorem usage_then_default_or_exit:
  "(length (argv e) < 2 \<longrightarrow>
      main e fs =
        run_model e ''template_BM''
          \<lparr>files = fs,
           stdout = [''Usage : python download_binary.py <model>'', '''',
                     ''Models available : physiboss-tutorial, physiboss-tutorial-invasion, physiboss-cell-lines, template_BM, template, rules, physimess, interaction''],
           fetched = []\<rparr>
    \<and> take 5 (stdout (snd (main e fs))) =
        [''Usage : python download_binary.py <model>'', '''',
         ''Models available : physiboss-tutorial, physiboss-tutorial-invasion, physiboss-cell-lines, template_BM, template, rules, physimess, interaction'',
         ''> Chosen model:  template_BM'',
         ''> Operating system:  '' @ platform_system e])
 \<and> (2 \<le> length (argv e)
      \<and> (argv e ! 1 \<in> {''-h'', ''--help''}
         \<or> argv e ! 1 \<notin> {''physiboss-tutorial'', ''physiboss-tutorial-invasion'',
                          ''physiboss-cell-lines'', ''template_BM'', ''template'', ''rules'',
                          ''physimess'', ''interaction''}) \<longrightarrow>
      main e fs =
        (Exit 1,
         \<lparr>files = fs,
          stdout = [''model =  '' @ argv e ! 1,
                    ''Usage : python download_binary.py <model>'', '''',
                    ''Models available : physiboss-tutorial, physiboss-tutorial-invasion, physiboss-cell-lines, template_BM, template, rules, physimess, interaction''],
          fetched = []\<rparr>))"
proof -
  have names: "set model_names = {''physiboss-tutorial'', ''physiboss-tutorial-invasion'',
                          ''physiboss-cell-lines'', ''template_BM'', ''template'', ''rules'',
                          ''physimess'', ''interaction''}"
    by (simp add: model_names_def list_models_def)
  have usage: "print_usage = [''Usage : python download_binary.py <model>'', '''',
                     ''Models available : physiboss-tutorial, physiboss-tutorial-invasion, physiboss-cell-lines, template_BM, template, rules, physimess, interaction'']"
    by (simp add: print_usage_def model_names_def list_models_def)
  have dflt: "\<not> rejected_model ''template_BM''"
    unfolding rejected_model_def names by simp
  have a: "main e fs = run_model e ''template_BM'' \<lparr>files = fs, stdout = print_usage, fetched = []\<rparr>"
    if "length (argv e) < 2"
    using that dflt by (simp add: main_def select_model_def)
  have b: "take 5 (stdout (snd (main e fs))) =
             print_usage @ [''> Chosen model:  template_BM'', ''> Operating system:  '' @ platform_system e]"
    if len: "length (argv e) < 2"
  proof -
    from stdout_run_model[of e "''template_BM''" "\<lparr>files = fs, stdout = print_usage, fetched = []\<rparr>"]
    obtain rest where "stdout (snd (main e fs)) =
        print_usage @ [''> Chosen model:  template_BM'', ''> Operating system:  '' @ platform_system e] @ rest"
      unfolding a[OF len] by auto
    then show ?thesis by (simp add: usage)
  qed
  have c: "main e fs = (Exit 1, \<lparr>files = fs, stdout = (''model =  '' @ argv e ! 1) # print_usage, fetched = []\<rparr>)"
    if "2 \<le> length (argv e)" and "rejected_model (argv e ! 1)"
    using that by (simp add: main_def select_model_def)
  show ?thesis
    using a b c unfolding rejected_model_def names usage by auto
qed

theorem usage_then_default_or_exit_witness:
  "length (argv linux_env) < 2
 \<and> take 5 (stdout (snd (main linux_env Map.empty))) =
        [''Usage : python download_binary.py <model>'', '''',
         ''Models available : physiboss-tutorial, physiboss-tutorial-invasion, physiboss-cell-lines, template_BM, template, rules, physimess, interaction'',
         ''> Chosen model:  template_BM'',
         ''> Operating system:  Linux'']
 \<and> main (linux_env\<lparr>argv := [''download_binary.py'', ''--help'']\<rparr>) Map.empty
     = (Exit 1,
        \<lparr>files = Map.empty,
         stdout = [''model =  --help'',
                   ''Usage : python download_binary.py <model>'', '''',
                   ''Models available : physiboss-tutorial, physiboss-tutorial-invasion, physiboss-cell-lines, template_BM, template, rules, physimess, interaction''],
         fetched = []\<rparr>)
 \<and> main (linux_env\<lparr>argv := [''download_binary.py'', ''no_such_model'']\<rparr>) Map.empty
     = (Exit 1,
        \<lparr>files = Map.empty,
         stdout = [''model =  no_such_model'',
                   ''Usage : python download_binary.py <model>'', '''',
                   ''Models available : physiboss-tutorial, physiboss-tutorial-invasion, physiboss-cell-lines, template_BM, template, rules, physimess, interaction''],
         fetched = []\<rparr>)"
proof -
  have len: "length (argv linux_env) < 2" and os: "platform_system linux_env = ''Linux''"
    by (simp_all add: linux_env_def)
  from usage_then_default_or_exit[of linux_env Map.empty] len
  have t: "take 5 (stdout (snd (main linux_env Map.empty))) =
        [''Usage : python download_binary.py <model>'', '''',
         ''Models available : physiboss-tutorial, physiboss-tutorial-invasion, physiboss-cell-lines, template_BM, template, rules, physimess, interaction'',
         ''> Chosen model:  template_BM'',
         ''> Operating system:  '' @ platform_system linux_env]"
    by blast
  have h: "main (linux_env\<lparr>argv := [''download_binary.py'', ''--help'']\<rparr>) Map.empty
     = (Exit 1,
        \<lparr>files = Map.empty,
         stdout = [''model =  --help'',
                   ''Usage : python download_binary.py <model>'', '''',
                   ''Models available : physiboss-tutorial, physiboss-tutorial-invasion, physiboss-cell-lines, template_BM, template, rules, physimess, interaction''],
         fetched = []\<rparr>)"
    using usage_then_default_or_exit[of "linux_env\<lparr>argv := [''download_binary.py'', ''--help'']\<rparr>" Map.empty]
    by simp
  have n: "main (linux_env\<lparr>argv := [''download_binary.py'', ''no_such_model'']\<rparr>) Map.empty
     = (Exit 1,
        \<lparr>files = Map.empty,
         stdout = [''model =  no_such_model'',
                   ''Usage : python download_binary.py <model>'', '''',
                   ''Models available : physiboss-tutorial, physiboss-tutorial-invasion, physiboss-cell-lines, template_BM, template, rules, physimess, interaction''],
         fetched = []\<rparr>)"
    using usage_then_default_or_exit[of "linux_env\<lparr>argv := [''download_binary.py'', ''no_such_model'']\<rparr>" Map.empty]
    by simp
  from len t h n show ?thesis unfolding os by simp
qed

section \<open>Properties of vtk\_view.py\<close>

subsection \<open>The colour and size arrays\<close>

lemma fill_arrays_Inr:
  "fill_arrays fo table rows (ps, cs, ss) = Inr (ps', cs', ss') \<Longrightarrow>
     ps' = ps @ map (\<lambda>(c, z, r). (float32 fo (position_x c), float32 fo (position_y c), float32 fo z)) rows
   \<and> ss' = ss @ map (\<lambda>(c, z, r). float32 fo r) rows
   \<and> (\<exists>raw. cs' = cs @ map insert_tuple3 raw
          \<and> map (\<lambda>(c, z, r). cell_rgb (int_times_255 fo) table (cell_type c)) rows = map Inr raw)"
proof (induction rows arbitrary: ps cs ss)
  case Nil
  then show ?case by simp
next
  case (Cons row rows)
  obtain c z r where row: "row = (c, z, r)" by (cases row)
  from Cons.prems row obtain rgb where
    rgb: "cell_rgb (int_times_255 fo) table (cell_type c) = Inr rgb"
    and rest: "fill_arrays fo table rows
                 (ps @ [(float32 fo (position_x c), float32 fo (position_y c), float32 fo z)],
                  cs @ [insert_tuple3 rgb], ss @ [float32 fo r]) = Inr (ps', cs', ss')"
    by (auto split: sum.splits)
  from Cons.IH[OF rest] obtain raw where
    "ps' = (ps @ [(float32 fo (position_x c), float32 fo (position_y c), float32 fo z)])
             @ map (\<lambda>(c, z, r). (float32 fo (position_x c), float32 fo (position_y c), float32 fo z)) rows"
    "ss' = (ss @ [float32 fo r]) @ map (\<lambda>(c, z, r). float32 fo r) rows"
    "cs' = (cs @ [insert_tuple3 rgb]) @ map insert_tuple3 raw"
    "map (\<lambda>(c, z, r). cell_rgb (int_times_255 fo) table (cell_type c)) rows = map Inr raw"
    by blast
  with row rgb have
    "ps' = ps @ map (\<lambda>(c, z, r). (float32 fo (position_x c), float32 fo (position_y c), float32 fo z)) (row # rows)"
    "ss' = ss @ map (\<lambda>(c, z, r). float32 fo r) (row # rows)"
    "cs' = cs @ map insert_tuple3 (rgb # raw)"
    "map (\<lambda>(c, z, r). cell_rgb (int_times_255 fo) table (cell_type c)) (row # rows) = map Inr (rgb # raw)"
    by (simp_all add: split_def)
  then show ?case by blast
qed

lemma zip3_third:
  "length xs = length ys \<Longrightarrow> length ys = length zs \<Longrightarrow>
     map (\<lambda>(c, z, r). f r) (zip xs (zip ys zs)) = map f zs"
  by (induction xs ys zs rule: list_induct3) auto

lemma glyph_arrays_Inr:
  assumes "glyph_arrays fo table m = Inr (points, colors, sizes)"
  shows "length colors = length (cell_df m)"
    and "sizes = map (float32 fo) (cell_radii fo (map total_volume (cell_df m)))"
    and "i < length (cell_df m) \<Longrightarrow>
           \<exists>rgb. cell_rgb (int_times_255 fo) table (cell_type (cell_df m ! i)) = Inr rgb
                \<and> colors ! i = insert_tuple3 rgb"
proof -
  let ?rows = "zip (cell_df m) (zip (positions_z fo m) (cell_radii fo (map total_volume (cell_df m))))"
  have len: "length ?rows = length (cell_df m)"
    by (simp add: positions_z_def cell_radii_def)
  from assms have "fill_arrays fo table ?rows ([], [], []) = Inr (points, colors, sizes)"
    by (simp add: glyph_arrays_def)
  from fill_arrays_Inr[OF this] obtain raw where
    ss: "sizes = map (\<lambda>(c, z, r). float32 fo r) ?rows"
    and cs: "colors = map insert_tuple3 raw"
    and raw: "map (\<lambda>(c, z, r). cell_rgb (int_times_255 fo) table (cell_type c)) ?rows = map Inr raw"
    by auto
  from raw have lr: "length ?rows = length raw"
    using length_map by metis
  with len cs show lc: "length colors = length (cell_df m)" by simp
  have "map (\<lambda>(c, z, r). float32 fo r) ?rows
          = map (float32 fo) (cell_radii fo (map total_volume (cell_df m)))"
    by (rule zip3_third) (simp_all add: positions_z_def cell_radii_def)
  with ss show "sizes = map (float32 fo) (cell_radii fo (map total_volume (cell_df m)))" by simp
  assume i: "i < length (cell_df m)"
  with len have i': "i < length ?rows" by simp
  have iraw: "i < length raw" using i' by (simp only: lr)
  let ?f = "\<lambda>row. cell_rgb (int_times_255 fo) table (cell_type (fst row))"
  have fi: "fst (?rows ! i) = cell_df m ! i" using i by (simp add: positions_z_def cell_radii_def)
  from raw have "map ?f ?rows = map Inr raw" by (simp add: split_def)
  then have e1: "map ?f ?rows ! i = map Inr raw ! i" by (rule arg_cong)
  have e2: "map ?f ?rows ! i = ?f (?rows ! i)" by (rule nth_map[OF i'])
  have e3: "map Inr raw ! i = Inr (raw ! i)" by (rule nth_map[OF iraw])
  have "?f (?rows ! i) = Inr (raw ! i)" by (rule trans[OF e2[symmetric] trans[OF e1 e3]])
  then have "cell_rgb (int_times_255 fo) table (cell_type (cell_df m ! i)) = Inr (raw ! i)"
    by (simp only: fi)
  moreover have "colors ! i = insert_tuple3 (raw ! i)"
    unfolding cs by (rule nth_map[OF iraw])
  ultimately show "\<exists>rgb. cell_rgb (int_times_255 fo) table (cell_type (cell_df m ! i)) = Inr rgb
                \<and> colors ! i = insert_tuple3 rgb"
    by blast
qed

text \<open>The size stored for record \<open>i\<close> is computed from the total volume of that record, by
  the division and the power of lines 155 and 156, and rounded to single precision by the
  array. What the operations round to is a matter of the floats and is not stated here.\<close>

lemma radius_of_each_cell:
  assumes "glyph_arrays fo table m = Inr (points, colors, sizes)"
      and "i < length (cell_df m)"
  shows "sizes ! i =
           float32 fo
             (np_power fo (np_divide fo (total_volume (cell_df m ! i)) (four_thirds_pi fo)) (one_third fo))"
  using glyph_arrays_Inr(2)[OF assms(1)] assms(2) by (simp add: cell_radii_def)

lemma renderer_show_time:
  "renderer v = Some ps \<Longrightarrow> \<exists>rest. renderer (snd (show_time e m xml_root v)) = Some (ps @ rest)"
  by (auto simp: show_time_def then_do_def add_actor_def print_line_def split: sum.splits)

lemma renderer_load_and_display_cells:
  assumes "pyMCDS_cells e xml_root (output_dir v) = Inr m"
      and "renderer v = Some props"
      and "glyph_arrays (ops e) (cell_colors v) m = Inr (points, colors, sizes)"
  shows "\<exists>rest. renderer (snd (load_and_display_cells e xml_root v))
                  = Some (props @ GlyphActor points colors sizes # rest)"
proof -
  let ?v1 = "v\<lparr>renderer := Some (props @ [GlyphActor points colors sizes])\<rparr>"
  have "renderer ?v1 = Some (props @ [GlyphActor points colors sizes])" by simp
  from renderer_show_time[OF this, of e m xml_root] obtain rest where
    "renderer (snd (show_time e m xml_root ?v1)) = Some ((props @ [GlyphActor points colors sizes]) @ rest)"
    by blast
  moreover have "load_and_display_cells e xml_root v = show_time e m xml_root ?v1"
    using assms by (simp add: load_and_display_cells_def then_do_def add_actor_def)
  ultimately show ?thesis by simp
qed

text \<open>An entry that yields a colour has three components, and the colour is made of
  \<^verbatim>\<open>int(c * 255)\<close> of the first three.\<close>

lemma rgb_of_Inr:
  assumes "rgb_of to255 color = Inr (r, g, b)"
  shows "3 \<le> length color \<and> to255 (color ! 0) = Inr r \<and> to255 (color ! 1) = Inr g
       \<and> to255 (color ! 2) = Inr b"
  using assms
  by (auto simp: rgb_of_def bind_exn_def py_getitem_def split: sum.splits if_splits)

lemma cell_rgb_nonneg:
  "0 \<le> ct \<Longrightarrow> ct < int (length table) \<Longrightarrow>
     cell_rgb to255 table ct = rgb_of to255 (table ! nat ct)"
  by (simp add: cell_rgb_def py_getitem_def bind_exn_def)

lemma cell_rgb_from_end:
  "- int (length table) \<le> ct \<Longrightarrow> ct < 0 \<Longrightarrow>
     cell_rgb to255 table ct = rgb_of to255 (table ! nat (int (length table) + ct))"
  by (simp add: cell_rgb_def py_getitem_def bind_exn_def)

lemma cell_rgb_gray:
  "int (length table) \<le> ct \<Longrightarrow> cell_rgb to255 table ct = Inr default_gray"
  by (simp add: cell_rgb_def)

lemma cell_rgb_entry:
  assumes "ct < int (length table)" and "cell_rgb to255 table ct = Inr rgb"
  shows "\<exists>entry. py_getitem table ct = Inr entry \<and> rgb_of to255 entry = Inr rgb"
  using assms
  by (cases "py_getitem table ct") (simp_all add: cell_rgb_def bind_exn_def)

text \<open>
  C2. When the loop over the cell records succeeds, the glyph actor added to the scene
  carries one colour per record, and the colour of record \<open>i\<close> is decided by its integer
  cell type \<open>ct\<close>. Below the length of \<^verbatim>\<open>cell_colors\<close> it is made of the first three
  components of the table entry \<^verbatim>\<open>cell_colors[ct]\<close> (for \<open>ct\<close> from 0 the entry at
  position \<open>ct\<close>), each through \<^verbatim>\<open>int(c * 255)\<close> and stored as an unsigned byte; at or
  beyond the length of the table it is the default gray (180, 180, 180).
\<close>

theorem cell_colour_lookup:
  assumes "pyMCDS_cells e xml_root (output_dir v) = Inr m"
      and "renderer v = Some props"
      and "glyph_arrays (ops e) (cell_colors v) m = Inr (points, colors, sizes)"
      and "i < length (cell_df m)"
      and "ct = cell_type (cell_df m ! i)"
      and "table = cell_colors v"
      and "to255 = int_times_255 (ops e)"
  shows "(\<exists>rest. renderer (snd (load_and_display_cells e xml_root v))
                  = Some (props @ GlyphActor points colors sizes # rest))
       \<and> length colors = length (cell_df m)
       \<and> (ct < int (length table) \<longrightarrow>
            (\<exists>entry r g b. py_getitem table ct = Inr entry \<and> 3 \<le> length entry
                \<and> to255 (entry ! 0) = Inr r \<and> to255 (entry ! 1) = Inr g \<and> to255 (entry ! 2) = Inr b
                \<and> colors ! i = (r mod 256, g mod 256, b mod 256)))
       \<and> (0 \<le> ct \<and> ct < int (length table) \<longrightarrow>
            (\<exists>r g b. 3 \<le> length (table ! nat ct)
                \<and> to255 (table ! nat ct ! 0) = Inr r \<and> to255 (table ! nat ct ! 1) = Inr g
                \<and> to255 (table ! nat ct ! 2) = Inr b
                \<and> colors ! i = (r mod 256, g mod 256, b mod 256)))
       \<and> (int (length table) \<le> ct \<longrightarrow> colors ! i = (180, 180, 180))"
proof -
  from glyph_arrays_Inr(3)[OF assms(3,4)] assms(5,6,7) obtain rgb where
    rgb: "cell_rgb to255 table ct = Inr rgb" and col: "colors ! i = insert_tuple3 rgb"
    by auto
  obtain r g b where t: "rgb = (r, g, b)" by (cases rgb)
  have col': "colors ! i = (r mod 256, g mod 256, b mod 256)"
    using col t by (simp add: insert_tuple3_def)
  have a: "\<exists>entry r g b. py_getitem table ct = Inr entry \<and> 3 \<le> length entry
                \<and> to255 (entry ! 0) = Inr r \<and> to255 (entry ! 1) = Inr g \<and> to255 (entry ! 2) = Inr b
                \<and> colors ! i = (r mod 256, g mod 256, b mod 256)"
    if "ct < int (length table)"
  proof -
    from cell_rgb_entry[OF that rgb] obtain entry where
      e: "py_getitem table ct = Inr entry" "rgb_of to255 entry = Inr (r, g, b)"
      using t by auto
    from rgb_of_Inr[OF e(2)] e(1) col' show ?thesis by blast
  qed
  have b: "\<exists>r g b. 3 \<le> length (table ! nat ct)
                \<and> to255 (table ! nat ct ! 0) = Inr r \<and> to255 (table ! nat ct ! 1) = Inr g
                \<and> to255 (table ! nat ct ! 2) = Inr b
                \<and> colors ! i = (r mod 256, g mod 256, b mod 256)"
    if "0 \<le> ct \<and> ct < int (length table)"
  proof -
    from that rgb t have "rgb_of to255 (table ! nat ct) = Inr (r, g, b)"
      by (simp add: cell_rgb_nonneg)
    from rgb_of_Inr[OF this] col' show ?thesis by blast
  qed
  have c: "colors ! i = (180, 180, 180)" if "int (length table) \<le> ct"
  proof -
    from rgb that have "rgb = default_gray" by (simp add: cell_rgb_gray)
    then show ?thesis by (simp add: col default_gray_def insert_tuple3_def)
  qed
  show ?thesis
    using renderer_load_and_display_cells[OF assms(1,2,3)] glyph_arrays_Inr(1)[OF assms(3)] a b c
    by blast
qed

text \<open>
  C8 as the code has it. A rendered cell whose cell type \<open>ct\<close> is negative and not below
  \<open>- len\<close> gets its colour from the table entry at position \<open>len + ct\<close>, counted from the
  end of the table: the first three components of that entry, each through
  \<^verbatim>\<open>int(c * 255)\<close> and stored as an unsigned byte, not the default gray branch.
\<close>

theorem negative_index_from_end:
  assumes "glyph_arrays fo table m = Inr (points, colors, sizes)"
      and "i < length (cell_df m)"
      and "ct = cell_type (cell_df m ! i)"
      and "- int (length table) \<le> ct" and "ct < 0"
  shows "\<exists>r g b. 3 \<le> length (table ! nat (int (length table) + ct))
           \<and> int_times_255 fo (table ! nat (int (length table) + ct) ! 0) = Inr r
           \<and> int_times_255 fo (table ! nat (int (length table) + ct) ! 1) = Inr g
           \<and> int_times_255 fo (table ! nat (int (length table) + ct) ! 2) = Inr b
           \<and> colors ! i = (r mod 256, g mod 256, b mod 256)"
proof -
  from glyph_arrays_Inr(3)[OF assms(1,2)] assms(3) obtain rgb where
    rgb: "cell_rgb (int_times_255 fo) table ct = Inr rgb" and col: "colors ! i = insert_tuple3 rgb"
    by auto
  obtain r g b where t: "rgb = (r, g, b)" by (cases rgb)
  from rgb t have "rgb_of (int_times_255 fo) (table ! nat (int (length table) + ct)) = Inr (r, g, b)"
    by (simp add: cell_rgb_from_end[OF assms(4,5)])
  from rgb_of_Inr[OF this] col t show ?thesis
    by (auto simp: insert_tuple3_def)
qed

lemma four_cells_arrays:
  "glyph_arrays ideal_ops two_entry_table four_cells
     = Inr (four_points, [(255, 127, 0), (254, 129, 127), (180, 180, 180), (254, 129, 127)], four_sizes)"
  by (simp add: glyph_arrays_def four_cells_def cell_of_type_def positions_z_def cell_radii_def
        four_points_def four_sizes_def two_entry_table_def insert_tuple3_def
        cell_rgb_def py_getitem_def rgb_of_def bind_exn_def ideal_ops_def py_int_def default_gray_def)

text \<open>
  C8 as stated fails: with a table of one entry and a cell of type -2, the index is
  negative and the table is not empty, yet the lookup raises IndexError and no colour is
  taken from the table.
\<close>

theorem negative_index_counterexample:
  "cell_type (cell_df cell_below_table ! 0) < 0
 \<and> orange_table \<noteq> []
 \<and> glyph_arrays ideal_ops orange_table cell_below_table
     = Inl (PyExn IndexError ''list index out of range'')"
  by (simp add: glyph_arrays_def cell_below_table_def cell_of_type_def positions_z_def cell_radii_def
        orange_table_def cell_rgb_def py_getitem_def bind_exn_def ideal_ops_def)

theorem negative_index_from_end_witness:
  "glyph_arrays ideal_ops two_entry_table four_cells
     = Inr (four_points, [(255, 127, 0), (254, 129, 127), (180, 180, 180), (254, 129, 127)], four_sizes)
 \<and> cell_type (cell_df four_cells ! 3) = - 1
 \<and> - int (length two_entry_table) \<le> - 1
 \<and> two_entry_table ! nat (int (length two_entry_table) + - 1) = [2, - 1 / 2, 1 / 2]
 \<and> int_times_255 ideal_ops 2 = Inr 510
 \<and> int_times_255 ideal_ops (- 1 / 2) = Inr (- 127)
 \<and> int_times_255 ideal_ops (1 / 2) = Inr 127
 \<and> [(255, 127, 0), (254, 129, 127), (180, 180, 180), (254, 129, 127 :: int)] ! 3
     = ((510 :: int) mod 256, (- 127 :: int) mod 256, (127 :: int) mod 256)"
proof -
  have i: "3 < length (cell_df four_cells)" and ct: "- 1 = cell_type (cell_df four_cells ! 3)"
    by (simp_all add: four_cells_def cell_of_type_def)
  have lo: "- int (length two_entry_table) \<le> - 1" by (simp add: two_entry_table_def)
  have en: "two_entry_table ! nat (int (length two_entry_table) + - 1) = [2, - 1 / 2, 1 / 2]"
    by (simp add: two_entry_table_def)
  have conv: "int_times_255 ideal_ops 2 = Inr 510" "int_times_255 ideal_ops (- 1 / 2) = Inr (- 127)"
    "int_times_255 ideal_ops (1 / 2) = Inr 127"
    by (simp_all add: ideal_ops_def py_int_def)
  from negative_index_from_end[OF four_cells_arrays i ct lo] en conv
  have "[(255, 127, 0), (254, 129, 127), (180, 180, 180), (254, 129, 127 :: int)] ! 3
          = ((510 :: int) mod 256, (- 127 :: int) mod 256, (127 :: int) mod 256)"
    by auto
  with four_cells_arrays ct lo en conv show ?thesis by simp
qed

theorem cell_colour_lookup_witness:
  "pyMCDS_cells xml_env ''output00000000.xml'' (output_dir ready_viewer) = Inr four_cells
 \<and> renderer ready_viewer = Some []
 \<and> cell_colors ready_viewer = [[1, 1 / 2, 0], [2, - 1 / 2, 1 / 2]]
 \<and> glyph_arrays (ops xml_env) (cell_colors ready_viewer) four_cells
     = Inr (four_points, [(255, 127, 0), (254, 129, 127), (180, 180, 180), (254, 129, 127)], four_sizes)
 \<and> cell_type (cell_df four_cells ! 1) = 1
 \<and> int_times_255 (ops xml_env) 2 = Inr 510
 \<and> int_times_255 (ops xml_env) (- 1 / 2) = Inr (- 127)
 \<and> int_times_255 (ops xml_env) (1 / 2) = Inr 127
 \<and> [(255, 127, 0), (254, 129, 127), (180, 180, 180), (254, 129, 127 :: int)] ! 1
     = ((510 :: int) mod 256, (- 127 :: int) mod 256, (127 :: int) mod 256)
 \<and> cell_type (cell_df four_cells ! 2) = 2
 \<and> [(255, 127, 0), (254, 129, 127), (180, 180, 180), (254, 129, 127 :: int)] ! 2 = (180, 180, 180)
 \<and> hd (the (renderer (snd (load_and_display_cells xml_env ''output00000000.xml'' ready_viewer))))
     = GlyphActor four_points [(255, 127, 0), (254, 129, 127), (180, 180, 180), (254, 129, 127)] four_sizes"
proof -
  let ?cols = "[(255, 127, 0), (254, 129, 127), (180, 180, 180), (254, 129, (127 :: int))]"
  have p: "pyMCDS_cells xml_env ''output00000000.xml'' (output_dir ready_viewer) = Inr four_cells"
    by (simp add: xml_env_def)
  have r: "renderer ready_viewer = Some []" by (simp add: ready_viewer_def)
  have tb: "cell_colors ready_viewer = [[1, 1 / 2, 0], [2, - 1 / 2, 1 / 2]]"
    by (simp add: ready_viewer_def new_viewer_def init_viewer_def two_entry_table_def)
  have a: "glyph_arrays (ops xml_env) (cell_colors ready_viewer) four_cells
             = Inr (four_points, ?cols, four_sizes)"
    using four_cells_arrays
    by (simp add: xml_env_def ready_viewer_def new_viewer_def init_viewer_def)
  have i1: "1 < length (cell_df four_cells)" and i2: "2 < length (cell_df four_cells)"
    by (simp_all add: four_cells_def)
  have ct1: "1 = cell_type (cell_df four_cells ! 1)" and ct2: "2 = cell_type (cell_df four_cells ! 2)"
    by (simp_all add: four_cells_def cell_of_type_def)
  have conv: "int_times_255 (ops xml_env) 2 = Inr 510"
    "int_times_255 (ops xml_env) (- 1 / 2) = Inr (- 127)"
    "int_times_255 (ops xml_env) (1 / 2) = Inr 127"
    by (simp_all add: xml_env_def ideal_ops_def py_int_def)
  from cell_colour_lookup[OF p r a i1 ct1 refl refl] tb conv
  have c1: "?cols ! 1 = ((510 :: int) mod 256, (- 127 :: int) mod 256, (127 :: int) mod 256)"
    by auto
  from cell_colour_lookup[OF p r a i2 ct2 refl refl] tb
  have c2: "?cols ! 2 = (180, 180, 180)"
    and hd: "hd (the (renderer (snd (load_and_display_cells xml_env ''output00000000.xml'' ready_viewer))))
               = GlyphActor four_points ?cols four_sizes"
    by auto
  from p r tb a ct1 ct2 conv c1 c2 hd show ?thesis by simp
qed

subsection \<open>Frames, the fallback and the timer\<close>

lemmas action_defs = then_do_def add_actor_def print_line_def create_demo_sphere_def
  add_orientation_axes_def add_frame_info_text_def add_error_text_def render_window_def
  remove_all_view_props_def handle_load_error_def

text \<open>
  C1 at a viewer that has no renderer, which is every viewer before \<^verbatim>\<open>open_window\<close> and
  after \<^verbatim>\<open>close\<close>: \<^verbatim>\<open>update_frame_data\<close> raises AttributeError from its first
  statement, which stands before the \<^verbatim>\<open>try\<close>, so the exception leaves the method and
  nothing is displayed.
\<close>

theorem update_frame_data_without_renderer:
  "update_frame_data e (init_viewer dir frame colors)
     = (Some (none_has_no ''RemoveAllViewProps''), init_viewer dir frame colors)
 \<and> update_frame_data e (snd (close v)) = (Some (none_has_no ''RemoveAllViewProps''), snd (close v))"
  by (simp add: update_frame_data_def then_do_def remove_all_view_props_def init_viewer_def close_def)

text \<open>With a renderer, and no XML file for the frame, the method does not raise: it puts
  the frame text, the texts of the SVG branch or the no-data text, and the red sphere of
  radius 50 into the emptied scene, and renders once if there is a window.\<close>

lemma fallback_with_renderer:
  assumes "renderer v = Some props"
      and "\<not> path_exists e (path_join (output_dir v) (''output'' @ fmt_08d (current_frame v) @ ''.xml''))"
  shows "path_exists e (path_join (output_dir v) (''snapshot'' @ fmt_08d (current_frame v) @ ''.svg'')) \<Longrightarrow>
           update_frame_data e v =
             (None, v\<lparr>renderer := Some
                        [TextActor (''CURRENT FRAME: '' @ str_int (current_frame v)) 24 yellow (100, 30),
                         TextActor (''FILE: '' @ path_join (output_dir v)
                                      (''snapshot'' @ fmt_08d (current_frame v) @ ''.svg'')) 24 yellow (100, 100),
                         TextActor ''SVG files contain limited position data. Full 3D visualization requires XML output.''
                           16 light_red (20, 140),
                         demo_sphere],
                      console := console v @
                        [''Found SVG file: '' @ path_join (output_dir v)
                                      (''snapshot'' @ fmt_08d (current_frame v) @ ''.svg'')],
                      vtk_win := map_option (\<lambda>w. w\<lparr>renders := renders w + 1\<rparr>) (vtk_win v)\<rparr>)"
    and "\<not> path_exists e (path_join (output_dir v) (''snapshot'' @ fmt_08d (current_frame v) @ ''.svg'')) \<Longrightarrow>
           update_frame_data e v =
             (None, v\<lparr>renderer := Some
                        [TextActor (''CURRENT FRAME: '' @ str_int (current_frame v)) 24 yellow (100, 30),
                         TextActor (''No cell data found for frame '' @ str_int (current_frame v)) 24 yellow (100, 100),
                         demo_sphere],
                      vtk_win := map_option (\<lambda>w. w\<lparr>renders := renders w + 1\<rparr>) (vtk_win v)\<rparr>)"
  using assms
  by (cases "vtk_win v"; simp add: update_frame_data_def load_frame_def try_svg_fallback_def action_defs Let_def)+

text \<open>
  C4. Asking for the frame the viewer already shows is a no-op: \<^verbatim>\<open>set_current_frame\<close>
  returns at once without an exception, and the viewer (frame, titles, scene, render
  count, printed lines) is the one it was given, whatever the files on disk.
\<close>

theorem set_current_frame_same:
  "set_current_frame e (current_frame v) v = (None, v)"
  by (simp add: set_current_frame_def)

lemma cf_then_do:
  assumes "\<And>v. current_frame (snd (f v)) = current_frame v"
      and "\<And>v. current_frame (snd (g v)) = current_frame v"
  shows "current_frame (snd (then_do f g v)) = current_frame v"
proof (cases "f v")
  case (Pair r v1)
  with assms(1)[of v] have v1: "current_frame v1 = current_frame v" by simp
  show ?thesis
  proof (cases r)
    case None
    with Pair v1 assms(2)[of v1] show ?thesis by (simp add: then_do_def)
  next
    case (Some ex)
    with Pair v1 show ?thesis by (simp add: then_do_def)
  qed
qed

lemma cf_add_actor: "current_frame (snd (add_actor a p v)) = current_frame v"
  by (simp add: add_actor_def split: option.splits)

lemma cf_print_line: "current_frame (snd (print_line s v)) = current_frame v"
  by (simp add: print_line_def)

lemma cf_create_demo_sphere: "current_frame (snd (create_demo_sphere v)) = current_frame v"
  by (simp add: create_demo_sphere_def cf_add_actor)

lemma cf_show_time: "current_frame (snd (show_time e m r v)) = current_frame v"
  by (simp add: show_time_def cf_then_do cf_add_actor cf_print_line split: sum.splits)

lemma cf_load_and_display_cells:
  "current_frame (snd (load_and_display_cells e r v)) = current_frame v"
  by (simp add: load_and_display_cells_def cf_then_do cf_add_actor cf_show_time
           split: sum.splits prod.splits)

lemma cf_try_svg_fallback: "current_frame (snd (try_svg_fallback e v)) = current_frame v"
  by (simp add: try_svg_fallback_def Let_def cf_then_do cf_add_actor cf_print_line
        cf_create_demo_sphere)

lemma cf_load_frame: "current_frame (snd (load_frame e v)) = current_frame v"
  by (simp add: load_frame_def Let_def cf_load_and_display_cells cf_try_svg_fallback)

lemma cf_handle_load_error: "current_frame (snd (handle_load_error ex v)) = current_frame v"
  by (simp add: handle_load_error_def add_error_text_def cf_then_do cf_add_actor cf_print_line
        cf_create_demo_sphere)

lemma cf_try_load:
  "current_frame (snd (case load_frame e v of (None, v1) \<Rightarrow> (None, v1)
                        | (Some ex, v1) \<Rightarrow> handle_load_error ex v1)) = current_frame v"
  using cf_load_frame[of e v]
  by (cases "load_frame e v") (auto simp: cf_handle_load_error split: option.splits)

lemma cf_update_frame_data: "current_frame (snd (update_frame_data e v)) = current_frame v"
  unfolding update_frame_data_def
  by (intro cf_then_do)
     (simp_all add: remove_all_view_props_def add_frame_info_text_def cf_add_actor cf_try_load
        add_orientation_axes_def render_window_def split: option.splits)

lemma cf_open_window: "current_frame (snd (open_window e v)) = current_frame v"
proof -
  have "current_frame (snd (open_window e v)) =
        current_frame (v\<lparr>qt_window := Some \<lparr>title = frame_title (current_frame v), shown = False\<rparr>,
          vtk_widget := Some True,
          vtk_win := Some \<lparr>window_name = [], renders = 0\<rparr>,
          interactor := True,
          renderer := Some []\<rparr>)"
    unfolding open_window_def
    by (intro cf_then_do) (simp_all add: cf_update_frame_data cf_add_actor add_orientation_axes_def)
  then show ?thesis by simp
qed

text \<open>
  C9. \<^verbatim>\<open>check_for_frame_update\<close>, called directly or by a timeout of the timer, returns
  the viewer unchanged whatever the environment holds: no field changes, nothing is read,
  nothing is rendered or printed. Of the calls made on a viewer, only
  \<^verbatim>\<open>set_current_frame\<close> can change the current frame.
\<close>

theorem check_for_frame_update_inert:
  "invoke e CheckForFrameUpdate v = (None, v)
 \<and> invoke e TimerTimeout v = (None, v)
 \<and> (\<forall>c. (\<forall>n. c \<noteq> SetCurrentFrame n) \<longrightarrow> current_frame (snd (invoke e c v)) = current_frame v)"
proof -
  have a: "invoke e CheckForFrameUpdate v = (None, v)"
    by (simp add: check_for_frame_update_def)
  have b: "invoke e TimerTimeout v = (None, v)"
    by (simp add: timer_timeout_def check_for_frame_update_def split: option.splits bool.splits)
  have c: "current_frame (snd (invoke e c v)) = current_frame v" if "\<forall>n. c \<noteq> SetCurrentFrame n" for c
    using that a b
    by (cases c) (simp_all add: cf_open_window cf_update_frame_data close_def)
  from a b c show ?thesis by blast
qed

theorem check_for_frame_update_inert_witness:
  "invoke bare_env CheckForFrameUpdate ready_viewer = (None, ready_viewer)
 \<and> invoke bare_env TimerTimeout (ready_viewer\<lparr>update_timer := Some True\<rparr>)
     = (None, ready_viewer\<lparr>update_timer := Some True\<rparr>)
 \<and> current_frame (snd (invoke bare_env OpenWindow new_viewer)) = current_frame new_viewer
 \<and> current_frame (snd (invoke bare_env UpdateFrameData ready_viewer)) = current_frame ready_viewer
 \<and> current_frame (snd (invoke bare_env Close ready_viewer)) = current_frame ready_viewer"
proof -
  have keep: "current_frame (snd (invoke bare_env c v)) = current_frame v"
    if "\<forall>n. c \<noteq> SetCurrentFrame n" for c and v :: "real viewer"
    using check_for_frame_update_inert[of bare_env v] that by blast
  show ?thesis
    using check_for_frame_update_inert[of bare_env ready_viewer]
      check_for_frame_update_inert[of bare_env "ready_viewer\<lparr>update_timer := Some True\<rparr>"]
      keep[of OpenWindow new_viewer] keep[of UpdateFrameData ready_viewer]
      keep[of Close ready_viewer]
    by simp
qed

lemma frame_switch_changes_frame:
  "current_frame (snd (set_current_frame e n v)) = n"
  by (simp add: set_current_frame_def cf_then_do cf_print_line cf_update_frame_data
        set_window_title_def split: option.splits)

end
